theory Spec2Isabelle
  imports Main "HOL-Library.Word" "HOL-Library.Monad_Syntax"
begin

section \<open>The FPC1020 platform driver: constants\<close>

text \<open>
  The model follows \<^verbatim>\<open>drivers/input/fingerprint/fpc/fpc1020_platform_tee.c\<close>.
  Kernel error numbers and the framebuffer constants come from the kernel headers the
  driver includes.
\<close>

definition EINVAL :: int where "EINVAL = 22"
definition ENOMEM :: int where "ENOMEM = 12"
definition ERANGE :: int where "ERANGE = 34"
definition EPROBE_DEFER :: int where "EPROBE_DEFER = 517"

definition FPC_TTW_HOLD_TIME :: nat where "FPC_TTW_HOLD_TIME = 400"
definition RESET_LOW_SLEEP_MIN_US :: nat where "RESET_LOW_SLEEP_MIN_US = 5000"
definition RESET_LOW_SLEEP_MAX_US :: nat where
  "RESET_LOW_SLEEP_MAX_US = RESET_LOW_SLEEP_MIN_US + 100"
definition RESET_HIGH_SLEEP1_MIN_US :: nat where "RESET_HIGH_SLEEP1_MIN_US = 100"
definition RESET_HIGH_SLEEP1_MAX_US :: nat where
  "RESET_HIGH_SLEEP1_MAX_US = RESET_HIGH_SLEEP1_MIN_US + 100"
definition RESET_HIGH_SLEEP2_MIN_US :: nat where "RESET_HIGH_SLEEP2_MIN_US = 5000"
definition RESET_HIGH_SLEEP2_MAX_US :: nat where
  "RESET_HIGH_SLEEP2_MAX_US = RESET_HIGH_SLEEP2_MIN_US + 100"
definition PWR_ON_SLEEP_MIN_US :: nat where "PWR_ON_SLEEP_MIN_US = 100"
definition PWR_ON_SLEEP_MAX_US :: nat where
  "PWR_ON_SLEEP_MAX_US = PWR_ON_SLEEP_MIN_US + 900"

definition NUM_PARAMS_REG_ENABLE_SET :: int where "NUM_PARAMS_REG_ENABLE_SET = 2"

definition pctl_names :: "string list" where
  "pctl_names = [''fpc1020_reset_reset'', ''fpc1020_reset_active'', ''fpc1020_irq_active'']"

text \<open>
  \<^verbatim>\<open>fpc_rails_t\<close> is a C enumeration without negative enumerators, an unsigned 32-bit
  integer for the compiler. Its three rail enumerators are all given the value 0 in the
  source, so \<^verbatim>\<open>FPC_VREG_MAX\<close>, which follows them, is 1.
\<close>

type_synonym fpc_rails_t = "32 word"

definition VDD_ANA :: fpc_rails_t where "VDD_ANA = 0"
definition VCC_SPI :: fpc_rails_t where "VCC_SPI = 0"
definition VDD_IO :: fpc_rails_t where "VDD_IO = 0"
definition FPC_VREG_MAX :: fpc_rails_t where "FPC_VREG_MAX = VDD_IO + 1"

record vreg_config =
  name :: string
  vmin :: nat
  vmax :: nat
  ua_load :: int

definition vreg_conf :: "vreg_config list" where
  "vreg_conf =
    [\<lparr>name = ''vdd_ana'', vmin = 1800000, vmax = 1800000, ua_load = 6000\<rparr>,
     \<lparr>name = ''vcc_spi'', vmin = 1800000, vmax = 1800000, ua_load = 10\<rparr>,
     \<lparr>name = ''vdd_io'', vmin = 1800000, vmax = 1800000, ua_load = 6000\<rparr>]"

section \<open>Driver state and the calls it makes into the kernel\<close>

text \<open>
  Every call the driver makes into the kernel is recorded, in order, as an event.
  Pointers to kernel objects (regulators, pin states) are handles, \<open>None\<close> for a null
  pointer. \<^verbatim>\<open>enable_irq\<close> and \<^verbatim>\<open>disable_irq\<close> carry the GPIO whose interrupt number
  \<^verbatim>\<open>gpio_to_irq\<close> looks up. The \<^verbatim>\<open>dev_err\<close>, \<^verbatim>\<open>dev_dbg\<close> and \<^verbatim>\<open>dev_info\<close> log lines are
  left out.
\<close>

datatype event =
    MutexLock
  | MutexUnlock
  | GpioGetValue int
  | PinctrlSelectState "nat option"
  | UsleepRange nat nat
  | RegulatorCountVoltages nat
  | RegulatorSetVoltage nat nat nat
  | RegulatorSetLoad nat int
  | RegulatorEnable nat
  | RegulatorIsEnabled nat
  | RegulatorDisable nat
  | EnableIrq int
  | DisableIrq int
  | PmWakeupEvent nat
  | SysfsNotify string
  | DeviceInitWakeup
  | RequestThreadedIrq int
  | EnableIrqWake int
  | WakeupSourceRegister string
  | InputRegisterHandler
  | SysfsCreateGroup
  | KernfsCreateLink
  | FbRegisterClient

text \<open>
  The fields of \<^verbatim>\<open>struct fpc1020_data\<close> that the driver reads or writes, together with
  \<open>irq_enabled\<close>, the function-local \<^verbatim>\<open>static bool irq_enabled\<close> of \<^verbatim>\<open>config_irq\<close>, and
  the trace of kernel calls made so far. The static is not part of the structure: it
  is initialised once, when the driver is loaded, and a probe finds it as the calls of
  \<^verbatim>\<open>config_irq\<close> made before have left it.
\<close>

record fpc1020_data =
  pinctrl_state :: "nat option list"
  vreg :: "nat option list"
  irq_gpio :: int
  rst_gpio :: int
  prepared :: bool
  fb_black :: bool
  wait_finger_down :: bool
  proximity_state :: bool
  wakeup_enabled :: int
  irq_enabled :: bool
  trace :: "event list"

text \<open>
  The kernel's answers are a parameter \<open>env\<close>: the value returned by the call recorded
  at position \<open>k\<close> of the trace is \<open>env k\<close>, so every call may succeed or fail
  independently of every other.
\<close>

type_synonym env = "nat \<Rightarrow> int"

definition emit :: "event \<Rightarrow> fpc1020_data \<Rightarrow> fpc1020_data" where
  "emit e s = s\<lparr>trace := trace s @ [e]\<rparr>"

definition call :: "env \<Rightarrow> event \<Rightarrow> fpc1020_data \<Rightarrow> int \<times> fpc1020_data" where
  "call env e s = (env (length (trace s)), emit e s)"

section \<open>The interrupt gate\<close>

text \<open>The initialiser of the static of \<^verbatim>\<open>config_irq\<close>.\<close>

definition irq_enabled_init :: bool where
  "irq_enabled_init = True"

definition config_irq :: "bool \<Rightarrow> fpc1020_data \<Rightarrow> fpc1020_data" where
  "config_irq enabled s =
    (let s1 = emit MutexLock s;
         s2 = (if enabled \<noteq> irq_enabled s1
               then (if enabled then emit (EnableIrq (irq_gpio s1)) s1
                     else emit (DisableIrq (irq_gpio s1)) s1)\<lparr>irq_enabled := enabled\<rparr>
               else s1)
     in emit MutexUnlock s2)"


text \<open>The calls of the trace that reach the enable/disable primitive.\<close>

fun is_irq_primitive :: "event \<Rightarrow> bool" where
  "is_irq_primitive (EnableIrq g) = True"
| "is_irq_primitive (DisableIrq g) = True"
| "is_irq_primitive e = False"

definition irq_calls :: "fpc1020_data \<Rightarrow> event list" where
  "irq_calls s = filter is_irq_primitive (trace s)"


section \<open>Pin control\<close>

text \<open>
  \<^verbatim>\<open>select_pin_ctl\<close> walks \<^verbatim>\<open>pctl_names\<close> with the index \<open>i\<close> and selects the pin
  state stored at the index of the first name equal to \<open>name\<close>.
\<close>

fun select_pin_ctl_loop ::
  "env \<Rightarrow> string \<Rightarrow> nat \<Rightarrow> string list \<Rightarrow> fpc1020_data \<Rightarrow> int \<times> fpc1020_data" where
  "select_pin_ctl_loop env nm i [] s = (- EINVAL, s)"
| "select_pin_ctl_loop env nm i (n # ns) s =
     (if n = nm then call env (PinctrlSelectState (pinctrl_state s ! i)) s
      else select_pin_ctl_loop env nm (Suc i) ns s)"

definition select_pin_ctl :: "env \<Rightarrow> string \<Rightarrow> fpc1020_data \<Rightarrow> int \<times> fpc1020_data" where
  "select_pin_ctl env nm s = select_pin_ctl_loop env nm 0 pctl_names s"

definition pinctl_set_store ::
  "env \<Rightarrow> string \<Rightarrow> nat \<Rightarrow> fpc1020_data \<Rightarrow> int \<times> fpc1020_data" where
  "pinctl_set_store env buf count s =
    (let s1 = emit MutexLock s;
         (rc, s2) = select_pin_ctl env buf s1;
         s3 = emit MutexUnlock s2
     in (if rc \<noteq> 0 then rc else int count, s3))"

section \<open>Regulators\<close>

text \<open>
  \<^verbatim>\<open>vreg_setup\<close> reads \<^verbatim>\<open>fpc1020->vreg[fpc_rail]\<close> before anything else. The array has
  \<^verbatim>\<open>ARRAY_SIZE(vreg_conf)\<close> elements; a read outside it is undefined behaviour in C and
  is the result \<open>None\<close> here.
\<close>

definition vreg_setup ::
  "env \<Rightarrow> fpc_rails_t \<Rightarrow> bool \<Rightarrow> fpc1020_data \<Rightarrow> (int \<times> fpc1020_data) option" where
  "vreg_setup env fpc_rail enable s =
    (if \<not> unat fpc_rail < length vreg_conf then None
     else case vreg s ! unat fpc_rail of
       None \<Rightarrow> Some (- EINVAL, s)
     | Some v \<Rightarrow>
         if enable then
           (let c = vreg_conf ! unat fpc_rail;
                (n, s1) = call env (RegulatorCountVoltages v) s;
                s2 = (if n > 0 then snd (call env (RegulatorSetVoltage v (vmin c) (vmax c)) s1)
                      else s1);
                (rc_load, s3) = call env (RegulatorSetLoad v (ua_load c)) s2;
                (rc, s4) = call env (RegulatorEnable v) s3
            in Some (rc, s4))
         else
           (let (en, s1) = call env (RegulatorIsEnabled v) s;
                s2 = (if en \<noteq> 0 then snd (call env (RegulatorDisable v) s1) else s1)
            in Some (0, s2)))"

definition name_to_fpc_rail :: "string \<Rightarrow> fpc_rails_t" where
  "name_to_fpc_rail nm =
    (if nm = ''vdd_ana'' then VDD_ANA
     else if nm = ''vcc_spi'' then VCC_SPI
     else if nm = ''vdd_io'' then VDD_IO
     else word_of_int (- EINVAL))"

text \<open>
  The kernel's \<^verbatim>\<open>sscanf\<close> on the format \<^verbatim>\<open>"%15[^,],%c"\<close>: up to 15 characters other than
  a comma (at least one), then a comma, then one character. The result is the number
  of fields assigned with the fields; a field that is not assigned is never read by
  the caller and is left empty here.
\<close>

definition sscanf_name_op :: "string \<Rightarrow> int \<times> string \<times> char" where
  "sscanf_name_op buf =
    (let nm = take 15 (takeWhile (\<lambda>c. c \<noteq> CHR '','') buf);
         rest = drop (length nm) buf
     in if nm = [] then (0, [], CHR 0x00)
        else case rest of
          c # d # r \<Rightarrow> if c = CHR '','' then (2, nm, d) else (1, nm, CHR 0x00)
        | _ \<Rightarrow> (1, nm, CHR 0x00))"

definition regulator_enable_store ::
  "env \<Rightarrow> string \<Rightarrow> nat \<Rightarrow> fpc1020_data \<Rightarrow> (int \<times> fpc1020_data) option" where
  "regulator_enable_store env buf count s =
    (case sscanf_name_op buf of (n, nm, op) \<Rightarrow>
      if n \<noteq> NUM_PARAMS_REG_ENABLE_SET then Some (- EINVAL, s)
      else if op \<noteq> CHR ''e'' \<and> op \<noteq> CHR ''d'' then Some (- EINVAL, s)
      else
        (let enable = (op = CHR ''e'');
             fpc_rail = name_to_fpc_rail nm;
             s1 = emit MutexLock s
         in case vreg_setup env fpc_rail enable s1 of
              None \<Rightarrow> None
            | Some (rc, s2) \<Rightarrow>
                Some (if rc \<noteq> 0 then rc else int count, emit MutexUnlock s2)))"

section \<open>Reset and power sequencing\<close>

definition hw_reset :: "env \<Rightarrow> fpc1020_data \<Rightarrow> fpc1020_data" where
  "hw_reset env s =
    (let (v0, s1) = call env (GpioGetValue (irq_gpio s)) s;
         (r1, s2) = select_pin_ctl env ''fpc1020_reset_active'' s1;
         s3 = emit (UsleepRange RESET_HIGH_SLEEP1_MIN_US RESET_HIGH_SLEEP1_MAX_US) s2;
         (r2, s4) = select_pin_ctl env ''fpc1020_reset_reset'' s3;
         s5 = emit (UsleepRange RESET_LOW_SLEEP_MIN_US RESET_LOW_SLEEP_MAX_US) s4;
         (r3, s6) = select_pin_ctl env ''fpc1020_reset_active'' s5;
         s7 = emit (UsleepRange RESET_HIGH_SLEEP2_MIN_US RESET_HIGH_SLEEP2_MAX_US) s6;
         (v1, s8) = call env (GpioGetValue (irq_gpio s7)) s7
     in s8)"

definition hw_reset_store ::
  "env \<Rightarrow> string \<Rightarrow> nat \<Rightarrow> fpc1020_data \<Rightarrow> int \<times> fpc1020_data" where
  "hw_reset_store env buf count s =
    (if buf = ''reset''
     then (int count, emit MutexUnlock (hw_reset env (emit MutexLock s)))
     else (- EINVAL, s))"

definition device_prepare ::
  "env \<Rightarrow> bool \<Rightarrow> fpc1020_data \<Rightarrow> fpc1020_data option" where
  "device_prepare env enable s =
    (let s0 = emit MutexLock s in
     if enable \<and> \<not> prepared s0 then
       do {
         let s1 = s0\<lparr>prepared := True\<rparr>;
         let (r1, s2) = select_pin_ctl env ''fpc1020_reset_reset'' s1;
         (r2, s3) \<leftarrow> vreg_setup env VCC_SPI True s2;
         (r3, s4) \<leftarrow> vreg_setup env VDD_IO True s3;
         (r4, s5) \<leftarrow> vreg_setup env VDD_ANA True s4;
         let s6 = emit (UsleepRange PWR_ON_SLEEP_MIN_US PWR_ON_SLEEP_MAX_US) s5;
         let (r5, s7) = select_pin_ctl env ''fpc1020_reset_active'' s6;
         Some (emit MutexUnlock s7)
       }
     else if \<not> enable \<and> prepared s0 then
       do {
         let (r1, s1) = select_pin_ctl env ''fpc1020_reset_reset'' s0;
         let s2 = emit (UsleepRange PWR_ON_SLEEP_MIN_US PWR_ON_SLEEP_MAX_US) s1;
         (r2, s3) \<leftarrow> vreg_setup env VDD_ANA False s2;
         (r3, s4) \<leftarrow> vreg_setup env VDD_IO False s3;
         (r4, s5) \<leftarrow> vreg_setup env VCC_SPI False s4;
         Some (emit MutexUnlock (s5\<lparr>prepared := False\<rparr>))
       }
     else Some (emit MutexUnlock s0))"

definition device_prepare_store ::
  "env \<Rightarrow> string \<Rightarrow> nat \<Rightarrow> fpc1020_data \<Rightarrow> (int \<times> fpc1020_data) option" where
  "device_prepare_store env buf count s =
    (if buf = ''enable'' then map_option (Pair (int count)) (device_prepare env True s)
     else if buf = ''disable'' then map_option (Pair (int count)) (device_prepare env False s)
     else Some (- EINVAL, s))"

section \<open>The remaining command nodes\<close>

definition clk_enable_store :: "string \<Rightarrow> nat \<Rightarrow> fpc1020_data \<Rightarrow> int \<times> fpc1020_data" where
  "clk_enable_store buf count s = (int count, s)"

definition fingerdown_wait_store ::
  "string \<Rightarrow> nat \<Rightarrow> fpc1020_data \<Rightarrow> int \<times> fpc1020_data" where
  "fingerdown_wait_store buf count s =
    (if buf = ''enable'' then (int count, s\<lparr>wait_finger_down := True\<rparr>)
     else if buf = ''disable'' then (int count, s\<lparr>wait_finger_down := False\<rparr>)
     else (- EINVAL, s))"

definition wakeup_enable_store ::
  "string \<Rightarrow> nat \<Rightarrow> fpc1020_data \<Rightarrow> int \<times> fpc1020_data" where
  "wakeup_enable_store buf count s =
    (let s1 = emit MutexLock s;
         (ret, s2) = (if buf = ''enable'' then (int count, s1\<lparr>wakeup_enabled := 1\<rparr>)
                      else if buf = ''disable'' then (int count, s1\<lparr>wakeup_enabled := 0\<rparr>)
                      else (- EINVAL, s1))
     in (ret, emit MutexUnlock s2))"

definition irq_ack :: "string \<Rightarrow> nat \<Rightarrow> fpc1020_data \<Rightarrow> int \<times> fpc1020_data" where
  "irq_ack buf count s = (int count, s)"

text \<open>
  The kernel's \<^verbatim>\<open>kstrtoint\<close> in base 10: an optional sign (\<open>-\<close>, or else \<open>+\<close>), at
  least one decimal digit, an optional final newline and nothing else; \<^verbatim>\<open>-ERANGE\<close>
  when the digits overflow 64 bits or the value does not fit a 32-bit \<^verbatim>\<open>int\<close>,
  \<^verbatim>\<open>-EINVAL\<close> on any other defect. The result is the return code with the value
  stored (0 when nothing is stored). \<open>kstrtoull\<close> is the part after the sign.
\<close>

definition is_digit :: "char \<Rightarrow> bool" where
  "is_digit c = (48 \<le> (of_char c :: nat) \<and> (of_char c :: nat) \<le> 57)"

definition parse_integer :: "string \<Rightarrow> nat" where
  "parse_integer ds = foldl (\<lambda>a c. 10 * a + (of_char c - 48)) 0 ds"

definition kstrtoull :: "string \<Rightarrow> int \<times> nat" where
  "kstrtoull s =
    (let ds = takeWhile is_digit s;
         rest = dropWhile is_digit s;
         v = parse_integer ds
     in if v \<ge> 2 ^ 64 then (- ERANGE, 0)
        else if ds = [] then (- EINVAL, 0)
        else if (case rest of [] \<Rightarrow> [] | c # r \<Rightarrow> if c = CHR 0x0A then r else rest) \<noteq> []
        then (- EINVAL, 0)
        else (0, v))"

definition kstrtoint :: "string \<Rightarrow> int \<times> int" where
  "kstrtoint s =
    (let (rv, tmp) =
           (case s of
              c # r \<Rightarrow>
                if c = CHR ''-'' then (let (rv, v) = kstrtoull r in (rv, - int v))
                else if c = CHR ''+'' then (let (rv, v) = kstrtoull r in (rv, int v))
                else (let (rv, v) = kstrtoull s in (rv, int v))
            | [] \<Rightarrow> (let (rv, v) = kstrtoull s in (rv, int v)))
     in if rv < 0 then (rv, 0)
        else if tmp < - (2 ^ 31) \<or> 2 ^ 31 \<le> tmp then (- ERANGE, 0)
        else (0, tmp))"

definition proximity_state_store ::
  "string \<Rightarrow> nat \<Rightarrow> fpc1020_data \<Rightarrow> int \<times> fpc1020_data" where
  "proximity_state_store buf count s =
    (case kstrtoint buf of (rc, val) \<Rightarrow>
      if rc \<noteq> 0 then (- EINVAL, s)
      else
        (let s1 = s\<lparr>proximity_state := (val \<noteq> 0)\<rparr>;
             s2 = (if fb_black s1
                   then (if proximity_state s1 then config_irq False s1
                         else config_irq True s1)
                   else s1)
         in (int count, s2)))"

section \<open>Interrupt handler and display notifications\<close>

definition IRQ_HANDLED :: int where "IRQ_HANDLED = 1"

definition fpc1020_irq_handler :: "int \<Rightarrow> fpc1020_data \<Rightarrow> int \<times> fpc1020_data" where
  "fpc1020_irq_handler irq s =
    (let s1 = emit (PmWakeupEvent FPC_TTW_HOLD_TIME) s;
         s2 = emit (SysfsNotify ''irq'') s1
     in (IRQ_HANDLED, s2))"

definition FB_EVENT_BLANK :: nat where "FB_EVENT_BLANK = 9"
definition FB_BLANK_UNBLANK :: int where "FB_BLANK_UNBLANK = 0"
definition FB_BLANK_NORMAL :: int where "FB_BLANK_NORMAL = 1"
definition FB_BLANK_POWERDOWN :: int where "FB_BLANK_POWERDOWN = 4"
definition NOTIFY_OK :: int where "NOTIFY_OK = 1"

text \<open>
  The notifier receives the event code \<open>val\<close> and \<open>data\<close>, a pointer to an event whose
  own \<open>data\<close> pointer leads to the blank mode; either pointer may be null. The test on
  the driver data, which \<^verbatim>\<open>container_of\<close> computes from the notifier block, cannot fail.
\<close>

definition fpc_fb_notif_callback ::
  "nat \<Rightarrow> int option option \<Rightarrow> fpc1020_data \<Rightarrow> int \<times> fpc1020_data" where
  "fpc_fb_notif_callback val data s =
    (if val \<noteq> FB_EVENT_BLANK then (0, s)
     else case data of
       Some (Some blank) \<Rightarrow>
         if blank = FB_BLANK_POWERDOWN then
           (let s1 = s\<lparr>fb_black := True\<rparr>
            in (NOTIFY_OK, if proximity_state s1 then config_irq False s1 else s1))
         else if blank = FB_BLANK_UNBLANK \<or> blank = FB_BLANK_NORMAL then
           (let s1 = s\<lparr>fb_black := False\<rparr> in (NOTIFY_OK, config_irq True s1))
         else (NOTIFY_OK, s)
     | _ \<Rightarrow> (NOTIFY_OK, s))"

section \<open>Attach\<close>

text \<open>
  What the platform offers when the driver is probed: whether the allocation succeeds,
  the value of \<^verbatim>\<open>fpsensor\<close> on a build with \<^verbatim>\<open>CONFIG_MACH_LONGCHEER\<close> (\<open>None\<close> on a
  build without), whether the device has a device-tree node, the regulators by supply
  name, the GPIO numbers by property name (negative when absent) with the result of
  requesting each, the pin controller with its states by name, the two boolean
  device-tree properties, the results of requesting the interrupt, of registering the
  input handler on a build with \<^verbatim>\<open>CONFIG_TOUCHSCREEN_COMMON\<close> (\<open>None\<close> on a build
  without) and of creating the attribute group, and the name of the device's
  grandparent when it has one.
\<close>

datatype pinctrl = PinctrlOk "string \<Rightarrow> nat option" | PinctrlErr int

record platform =
  kzalloc_ok :: bool
  fpsensor :: "int option"
  of_node :: bool
  regulator_get :: "string \<Rightarrow> nat option"
  get_named_gpio :: "string \<Rightarrow> int"
  gpio_request :: "int \<Rightarrow> string \<Rightarrow> int"
  pinctrl_get :: pinctrl
  enable_wakeup :: bool
  request_irq_rc :: int
  input_register_rc :: "int option"
  sysfs_create_group_rc :: int
  enable_on_boot :: bool
  grandparent_name :: "string option"

text \<open>
  The zeroed allocation of \<^verbatim>\<open>devm_kzalloc\<close> with an empty trace. Only the structure is
  fresh: the static of \<^verbatim>\<open>config_irq\<close> keeps the value \<open>st\<close> it has when the probe starts.
\<close>

definition kzalloc_data :: "bool \<Rightarrow> fpc1020_data" where
  "kzalloc_data st =
    \<lparr>pinctrl_state = [None, None, None], vreg = [None, None, None],
     irq_gpio = 0, rst_gpio = 0, prepared = False, fb_black = False,
     wait_finger_down = False, proximity_state = False, wakeup_enabled = 0,
     irq_enabled = st, trace = []\<rparr>"

fun fpc1020_get_regulators_loop ::
  "platform \<Rightarrow> nat \<Rightarrow> nat \<Rightarrow> fpc1020_data \<Rightarrow> int \<times> fpc1020_data" where
  "fpc1020_get_regulators_loop p i 0 s = (0, s)"
| "fpc1020_get_regulators_loop p i (Suc k) s =
     (case regulator_get p (name (vreg_conf ! i)) of
        None \<Rightarrow> (- EINVAL, s\<lparr>vreg := (vreg s)[i := None]\<rparr>)
      | Some r \<Rightarrow>
          fpc1020_get_regulators_loop p (Suc i) k (s\<lparr>vreg := (vreg s)[i := Some r]\<rparr>))"

text \<open>The loop runs for \<open>i\<close> from 0 while \<open>i < FPC_VREG_MAX\<close>.\<close>

definition fpc1020_get_regulators :: "platform \<Rightarrow> fpc1020_data \<Rightarrow> int \<times> fpc1020_data" where
  "fpc1020_get_regulators p s = fpc1020_get_regulators_loop p 0 (unat FPC_VREG_MAX) s"

text \<open>The result is the return code with the value left in \<^verbatim>\<open>*gpio\<close>.\<close>

definition fpc1020_request_named_gpio :: "platform \<Rightarrow> string \<Rightarrow> int \<Rightarrow> int \<times> int" where
  "fpc1020_request_named_gpio p label gpio =
    (let rc = get_named_gpio p label in
     if rc < 0 then (rc, gpio)
     else (let rc2 = gpio_request p rc label in
           if rc2 \<noteq> 0 then (rc2, rc) else (0, rc)))"

fun lookup_pin_states ::
  "(string \<Rightarrow> nat option) \<Rightarrow> nat \<Rightarrow> string list \<Rightarrow> fpc1020_data \<Rightarrow> int \<times> fpc1020_data" where
  "lookup_pin_states lk i [] s = (0, s)"
| "lookup_pin_states lk i (n # ns) s =
     (case lk n of
        None \<Rightarrow> (- EINVAL, s)
      | Some st \<Rightarrow>
          lookup_pin_states lk (Suc i) ns
            (s\<lparr>pinctrl_state := (pinctrl_state s)[i := Some st]\<rparr>))"

text \<open>The part of the probe that follows the lookup of the pin states.\<close>

definition probe_finish ::
  "env \<Rightarrow> platform \<Rightarrow> fpc1020_data \<Rightarrow> (int \<times> fpc1020_data) option" where
  "probe_finish env p s =
    (let (r1, s1) = select_pin_ctl env ''fpc1020_reset_reset'' s;
         (r2, s2) = select_pin_ctl env ''fpc1020_irq_active'' s1;
         s3 = s2\<lparr>wakeup_enabled := 0\<rparr>;
         s4 = (if enable_wakeup p then emit DeviceInitWakeup s3 else s3);
         s5 = emit (RequestThreadedIrq (irq_gpio s4)) s4
     in if request_irq_rc p \<noteq> 0 then Some (request_irq_rc p, s5)
        else
          (let s6 = emit (EnableIrqWake (irq_gpio s5)) s5;
               s7 = emit (WakeupSourceRegister ''fpc_ttw_ws'') s6;
               (rc_in, s8) = (case input_register_rc p of
                                None \<Rightarrow> (0, s7)
                              | Some rc \<Rightarrow> (rc, emit InputRegisterHandler s7))
           in if rc_in \<noteq> 0 then Some (rc_in, s8)
              else
                (let s9 = emit SysfsCreateGroup s8 in
                 if sysfs_create_group_rc p \<noteq> 0 then Some (sysfs_create_group_rc p, s9)
                 else
                   (case (if enable_on_boot p then device_prepare env True s9 else Some s9) of
                      None \<Rightarrow> None
                    | Some s10 \<Rightarrow>
                        (case grandparent_name p of
                           None \<Rightarrow> Some (0, s10)
                         | Some nm \<Rightarrow>
                             if nm \<noteq> ''platform'' then Some (0, s10)
                             else
                               (let s11 = emit KernfsCreateLink s10;
                                    s12 = hw_reset env s11;
                                    s13 = s12\<lparr>fb_black := False, wait_finger_down := False\<rparr>;
                                    s14 = emit FbRegisterClient s13
                                in Some (0, s14)))))))"

text \<open>
  The probe, given the value \<open>st\<close> that the static of \<^verbatim>\<open>config_irq\<close> has when it starts:
  \<open>irq_enabled_init\<close> for the first probe after the driver is loaded, and for a later one
  whatever the device attached before has left.
\<close>

definition fpc1020_probe ::
  "env \<Rightarrow> platform \<Rightarrow> bool \<Rightarrow> (int \<times> fpc1020_data) option" where
  "fpc1020_probe env p st =
    (if \<not> kzalloc_ok p then Some (- ENOMEM, kzalloc_data st)
     else if fpsensor p \<noteq> None \<and> fpsensor p \<noteq> Some 1 then Some (- 1, kzalloc_data st)
     else if \<not> of_node p then Some (- EINVAL, kzalloc_data st)
     else
       (let (rc, s1) = fpc1020_get_regulators p (kzalloc_data st) in
        if rc \<noteq> 0 then Some (rc, s1)
        else
          (let (rc, g) = fpc1020_request_named_gpio p ''fpc,gpio_irq'' (irq_gpio s1);
               s2 = s1\<lparr>irq_gpio := g\<rparr>
           in if rc \<noteq> 0 then Some (- EINVAL, s2)
              else
                (let (rc, g) = fpc1020_request_named_gpio p ''fpc,gpio_rst'' (rst_gpio s2);
                     s3 = s2\<lparr>rst_gpio := g\<rparr>
                 in if rc \<noteq> 0 then Some (- EINVAL, s3)
                    else
                      (case pinctrl_get p of
                         PinctrlErr e \<Rightarrow>
                           if e = - EPROBE_DEFER then Some (- EPROBE_DEFER, s3)
                           else Some (- EINVAL, s3)
                       | PinctrlOk lk \<Rightarrow>
                           (let (rc, s4) = lookup_pin_states lk 0 pctl_names s3 in
                            if rc \<noteq> 0 then Some (rc, s4)
                            else probe_finish env p s4))))))"

section \<open>Observing a run\<close>

text \<open>The kernel calls made between a state and a later one.\<close>

definition new_events :: "fpc1020_data \<Rightarrow> fpc1020_data \<Rightarrow> event list" where
  "new_events s s' = drop (length (trace s)) (trace s')"

fun is_select :: "event \<Rightarrow> bool" where
  "is_select (PinctrlSelectState h) = True"
| "is_select e = False"

fun is_regulator_enable :: "event \<Rightarrow> bool" where
  "is_regulator_enable (RegulatorEnable v) = True"
| "is_regulator_enable e = False"

fun is_regulator_disable :: "event \<Rightarrow> bool" where
  "is_regulator_disable (RegulatorDisable v) = True"
| "is_regulator_disable e = False"

fun is_regulator_query :: "event \<Rightarrow> bool" where
  "is_regulator_query (RegulatorIsEnabled v) = True"
| "is_regulator_query e = False"

definition selections :: "fpc1020_data \<Rightarrow> fpc1020_data \<Rightarrow> event list" where
  "selections s s' = filter is_select (new_events s s')"

definition rail_enables :: "fpc1020_data \<Rightarrow> fpc1020_data \<Rightarrow> event list" where
  "rail_enables s s' = filter is_regulator_enable (new_events s s')"

definition rail_queries :: "fpc1020_data \<Rightarrow> fpc1020_data \<Rightarrow> event list" where
  "rail_queries s s' = filter is_regulator_query (new_events s s')"


fun is_wakeup_event :: "event \<Rightarrow> bool" where
  "is_wakeup_event (PmWakeupEvent t) = True"
| "is_wakeup_event e = False"

section \<open>The policy of the specification\<close>

text \<open>
  The fusion table of the specification: blanked and covered gives disabled, every
  other combination gives enabled.
\<close>

definition spec_fusion_target :: "bool \<Rightarrow> bool \<Rightarrow> bool" where
  "spec_fusion_target blanked covered = (if blanked \<and> covered then False else True)"

section \<open>An example platform and state\<close>

text \<open>
  A state as a successful probe leaves it, before any kernel call is recorded: the
  three pin states and the one regulator that \<^verbatim>\<open>fpc1020_get_regulators\<close> fetches have
  been found.
\<close>

definition example_state :: fpc1020_data where
  "example_state =
    \<lparr>pinctrl_state = [Some 10, Some 11, Some 12], vreg = [Some 20, None, None],
     irq_gpio = 5, rst_gpio = 6, prepared = False, fb_black = False,
     wait_finger_down = False, proximity_state = False, wakeup_enabled = 0,
     irq_enabled = True, trace = []\<rparr>"

text \<open>A platform on which the probe succeeds and leaves the example state.\<close>

definition example_platform :: platform where
  "example_platform =
    \<lparr>kzalloc_ok = True, fpsensor = None, of_node = True,
     regulator_get = (\<lambda>n. if n = ''vdd_ana'' then Some 20 else None),
     get_named_gpio = (\<lambda>l. if l = ''fpc,gpio_irq'' then 5
                            else if l = ''fpc,gpio_rst'' then 6 else - 2),
     gpio_request = (\<lambda>g l. 0),
     pinctrl_get = PinctrlOk (map_of [(''fpc1020_reset_reset'', 10),
       (''fpc1020_reset_active'', 11), (''fpc1020_irq_active'', 12)]),
     enable_wakeup = True, request_irq_rc = 0, input_register_rc = None,
     sysfs_create_group_rc = 0, enable_on_boot = False,
     grandparent_name = Some ''platform''\<rparr>"

section \<open>Properties of the interrupt gate\<close>

lemma config_irq_same:
  "config_irq (irq_enabled s) s = s\<lparr>trace := trace s @ [MutexLock, MutexUnlock]\<rparr>"
  by (simp add: config_irq_def emit_def)






section \<open>Properties of the reset pulse\<close>

lemma select_pin_ctl_simps:
  "select_pin_ctl env ''fpc1020_reset_reset'' s =
     call env (PinctrlSelectState (pinctrl_state s ! 0)) s"
  "select_pin_ctl env ''fpc1020_reset_active'' s =
     call env (PinctrlSelectState (pinctrl_state s ! 1)) s"
  "select_pin_ctl env ''fpc1020_irq_active'' s =
     call env (PinctrlSelectState (pinctrl_state s ! 2)) s"
  by (simp_all add: select_pin_ctl_def pctl_names_def numeral_2_eq_2)

lemma hw_reset_trace:
  "hw_reset env s = s\<lparr>trace := trace s @
      [GpioGetValue (irq_gpio s),
       PinctrlSelectState (pinctrl_state s ! 1), UsleepRange 100 200,
       PinctrlSelectState (pinctrl_state s ! 0), UsleepRange 5000 5100,
       PinctrlSelectState (pinctrl_state s ! 1), UsleepRange 5000 5100,
       GpioGetValue (irq_gpio s)]\<rparr>"
  by (simp add: hw_reset_def select_pin_ctl_simps call_def emit_def
      RESET_HIGH_SLEEP1_MIN_US_def RESET_HIGH_SLEEP1_MAX_US_def RESET_LOW_SLEEP_MIN_US_def
      RESET_LOW_SLEEP_MAX_US_def RESET_HIGH_SLEEP2_MIN_US_def RESET_HIGH_SLEEP2_MAX_US_def)

text \<open>
  C2, as the code has it. Whatever the kernel answers, \<^verbatim>\<open>hw_reset\<close> reads the interrupt
  line, makes exactly three pin selections, reset-high (\<^verbatim>\<open>fpc1020_reset_active\<close>), reset-low
  (\<^verbatim>\<open>fpc1020_reset_reset\<close>), reset-high, holding 100 to 200 microseconds after the first,
  5000 to 5100 after the reset-low one and 5000 to 5100 after the last, and reads the
  interrupt line again.
\<close>

theorem hw_reset_sequence:
  "new_events s (hw_reset env s) =
      [GpioGetValue (irq_gpio s),
       PinctrlSelectState (pinctrl_state s ! 1), UsleepRange 100 200,
       PinctrlSelectState (pinctrl_state s ! 0), UsleepRange 5000 5100,
       PinctrlSelectState (pinctrl_state s ! 1), UsleepRange 5000 5100,
       GpioGetValue (irq_gpio s)]
   \<and> pctl_names ! 0 = ''fpc1020_reset_reset'' \<and> pctl_names ! 1 = ''fpc1020_reset_active''"
  by (simp add: hw_reset_trace new_events_def pctl_names_def)

theorem hw_reset_sequence_witness:
  "new_events example_state (hw_reset (\<lambda>k. - 5) example_state) =
      [GpioGetValue 5,
       PinctrlSelectState (Some 11), UsleepRange 100 200,
       PinctrlSelectState (Some 10), UsleepRange 5000 5100,
       PinctrlSelectState (Some 11), UsleepRange 5000 5100,
       GpioGetValue 5]"
  using hw_reset_sequence [of example_state "\<lambda>k. - 5"]
  by (simp add: example_state_def)

text \<open>
  C2 as stated fails: on the example state the selections are three, high, low, high,
  and not the four low, high, low, high.
\<close>

theorem hw_reset_four_selections_counterexample:
  "filter is_select (new_events example_state (hw_reset (\<lambda>k. 0) example_state)) =
     [PinctrlSelectState (Some 11), PinctrlSelectState (Some 10), PinctrlSelectState (Some 11)]
   \<and> filter is_select (new_events example_state (hw_reset (\<lambda>k. 0) example_state)) \<noteq>
     [PinctrlSelectState (Some 10), PinctrlSelectState (Some 11),
      PinctrlSelectState (Some 10), PinctrlSelectState (Some 11)]"
  by (simp add: hw_reset_trace new_events_def example_state_def)


section \<open>Properties of power sequencing\<close>

lemma rail_zero: "unat VDD_ANA = 0" "unat VCC_SPI = 0" "unat VDD_IO = 0"
  by (simp_all add: VDD_ANA_def VCC_SPI_def VDD_IO_def)

lemma vreg_setup_enable:
  assumes "vreg s ! 0 = Some v" and "unat r = 0"
  shows "\<exists>rc evs. vreg_setup env r True s = Some (rc, s\<lparr>trace := trace s @ evs\<rparr>)
           \<and> filter is_regulator_enable evs = [RegulatorEnable v]
           \<and> filter is_select evs = []"
  using assms
  by (auto simp add: vreg_setup_def vreg_conf_def call_def emit_def Let_def)

lemma vreg_setup_disable:
  assumes "vreg s ! 0 = Some v" and "unat r = 0"
  shows "\<exists>evs. vreg_setup env r False s = Some (0, s\<lparr>trace := trace s @ evs\<rparr>)
           \<and> filter is_regulator_query evs = [RegulatorIsEnabled v]
           \<and> filter is_regulator_disable evs =
                (if env (length (trace s)) \<noteq> 0 then [RegulatorDisable v] else [])
           \<and> filter is_select evs = []"
  using assms
  by (auto simp add: vreg_setup_def vreg_conf_def call_def emit_def Let_def)

lemma vreg_setup_total:
  assumes "unat r = 0"
  shows "\<exists>rc evs. vreg_setup env r en s = Some (rc, s\<lparr>trace := trace s @ evs\<rparr>)"
proof (cases "vreg s ! 0")
  case None
  then have "vreg_setup env r en s = Some (- EINVAL, s\<lparr>trace := trace s @ []\<rparr>)"
    using assms by (simp add: vreg_setup_def vreg_conf_def)
  then show ?thesis by blast
next
  case (Some v)
  then show ?thesis
    using vreg_setup_enable [of s v r env] vreg_setup_disable [of s v r env] assms
    by (cases en; simp; blast)
qed

lemma device_prepare_noop:
  "prepared s \<Longrightarrow> device_prepare env True s = Some (s\<lparr>trace := trace s @ [MutexLock, MutexUnlock]\<rparr>)"
  "\<not> prepared s \<Longrightarrow> device_prepare env False s = Some (s\<lparr>trace := trace s @ [MutexLock, MutexUnlock]\<rparr>)"
  by (simp_all add: device_prepare_def emit_def)

lemma device_prepare_up:
  assumes "vreg s ! 0 = Some v" and "\<not> prepared s"
  shows "\<exists>evs. device_prepare env True s = Some (s\<lparr>prepared := True, trace := trace s @ evs\<rparr>)
           \<and> filter is_regulator_enable evs = [RegulatorEnable v, RegulatorEnable v, RegulatorEnable v]
           \<and> filter is_select evs = [PinctrlSelectState (pinctrl_state s ! 0), PinctrlSelectState (pinctrl_state s ! 1)]"
proof -
  let ?s2 = "s\<lparr>trace := trace s @ [MutexLock], prepared := True,
      trace := trace s @ [MutexLock, PinctrlSelectState (pinctrl_state s ! 0)]\<rparr>"
  obtain r2 e2 where a: "vreg_setup env VCC_SPI True ?s2 = Some (r2, ?s2\<lparr>trace := trace ?s2 @ e2\<rparr>)"
     "filter is_regulator_enable e2 = [RegulatorEnable v]" "filter is_select e2 = []"
    using vreg_setup_enable [of ?s2 v VCC_SPI env] assms by (auto simp: rail_zero)
  let ?s3 = "?s2\<lparr>trace := trace ?s2 @ e2\<rparr>"
  obtain r3 e3 where b: "vreg_setup env VDD_IO True ?s3 = Some (r3, ?s3\<lparr>trace := trace ?s3 @ e3\<rparr>)"
     "filter is_regulator_enable e3 = [RegulatorEnable v]" "filter is_select e3 = []"
    using vreg_setup_enable [of ?s3 v VDD_IO env] assms by (auto simp: rail_zero)
  let ?s4 = "?s3\<lparr>trace := trace ?s3 @ e3\<rparr>"
  obtain r4 e4 where c: "vreg_setup env VDD_ANA True ?s4 = Some (r4, ?s4\<lparr>trace := trace ?s4 @ e4\<rparr>)"
     "filter is_regulator_enable e4 = [RegulatorEnable v]" "filter is_select e4 = []"
    using vreg_setup_enable [of ?s4 v VDD_ANA env] assms by (auto simp: rail_zero)
  let ?evs = "MutexLock # PinctrlSelectState (pinctrl_state s ! 0) # e2 @ e3 @ e4 @
     [UsleepRange PWR_ON_SLEEP_MIN_US PWR_ON_SLEEP_MAX_US,
      PinctrlSelectState (pinctrl_state s ! 1), MutexUnlock]"
  have "device_prepare env True s = Some (s\<lparr>prepared := True, trace := trace s @ ?evs\<rparr>)"
    using assms a b c
    by (simp add: device_prepare_def select_pin_ctl_simps call_def emit_def Let_def)
  moreover have "filter is_regulator_enable ?evs = [RegulatorEnable v, RegulatorEnable v, RegulatorEnable v]"
    using a b c by simp
  moreover have "filter is_select ?evs = [PinctrlSelectState (pinctrl_state s ! 0), PinctrlSelectState (pinctrl_state s ! 1)]"
    using a b c by simp
  ultimately show ?thesis by blast
qed


lemma device_prepare_down:
  assumes "vreg s ! 0 = Some v" and "prepared s"
  shows "\<exists>evs. device_prepare env False s = Some (s\<lparr>prepared := False, trace := trace s @ evs\<rparr>)
           \<and> filter is_regulator_query evs =
               [RegulatorIsEnabled v, RegulatorIsEnabled v, RegulatorIsEnabled v]
           \<and> filter is_regulator_disable evs =
               replicate (length (filter is_regulator_disable evs)) (RegulatorDisable v)
           \<and> ((\<forall>k. env k \<noteq> 0) \<longrightarrow> filter is_regulator_disable evs =
               [RegulatorDisable v, RegulatorDisable v, RegulatorDisable v])
           \<and> filter is_select evs = [PinctrlSelectState (pinctrl_state s ! 0)]"
proof -
  let ?s2 = "s\<lparr>trace := trace s @ [MutexLock, PinctrlSelectState (pinctrl_state s ! 0),
      UsleepRange PWR_ON_SLEEP_MIN_US PWR_ON_SLEEP_MAX_US]\<rparr>"
  obtain e2 where a: "vreg_setup env VDD_ANA False ?s2 = Some (0, ?s2\<lparr>trace := trace ?s2 @ e2\<rparr>)"
     "filter is_regulator_query e2 = [RegulatorIsEnabled v]" "filter is_select e2 = []"
     "filter is_regulator_disable e2 = (if env (length (trace ?s2)) \<noteq> 0 then [RegulatorDisable v] else [])"
    using vreg_setup_disable [of ?s2 v VDD_ANA env] assms by (auto simp: rail_zero)
  let ?s3 = "?s2\<lparr>trace := trace ?s2 @ e2\<rparr>"
  obtain e3 where b: "vreg_setup env VDD_IO False ?s3 = Some (0, ?s3\<lparr>trace := trace ?s3 @ e3\<rparr>)"
     "filter is_regulator_query e3 = [RegulatorIsEnabled v]" "filter is_select e3 = []"
     "filter is_regulator_disable e3 = (if env (length (trace ?s3)) \<noteq> 0 then [RegulatorDisable v] else [])"
    using vreg_setup_disable [of ?s3 v VDD_IO env] assms by (auto simp: rail_zero)
  let ?s4 = "?s3\<lparr>trace := trace ?s3 @ e3\<rparr>"
  obtain e4 where c: "vreg_setup env VCC_SPI False ?s4 = Some (0, ?s4\<lparr>trace := trace ?s4 @ e4\<rparr>)"
     "filter is_regulator_query e4 = [RegulatorIsEnabled v]" "filter is_select e4 = []"
     "filter is_regulator_disable e4 = (if env (length (trace ?s4)) \<noteq> 0 then [RegulatorDisable v] else [])"
    using vreg_setup_disable [of ?s4 v VCC_SPI env] assms by (auto simp: rail_zero)
  let ?evs = "MutexLock # PinctrlSelectState (pinctrl_state s ! 0) #
      UsleepRange PWR_ON_SLEEP_MIN_US PWR_ON_SLEEP_MAX_US # e2 @ e3 @ e4 @ [MutexUnlock]"
  have "device_prepare env False s = Some (s\<lparr>prepared := False, trace := trace s @ ?evs\<rparr>)"
    using assms a(1) b(1) c(1)
    by (simp add: device_prepare_def select_pin_ctl_simps call_def emit_def Let_def)
  moreover have "filter is_regulator_query ?evs =
      [RegulatorIsEnabled v, RegulatorIsEnabled v, RegulatorIsEnabled v]"
    using a b c by simp
  moreover have "filter is_select ?evs = [PinctrlSelectState (pinctrl_state s ! 0)]"
    using a b c by simp
  moreover have "filter is_regulator_disable ?evs =
      replicate (length (filter is_regulator_disable ?evs)) (RegulatorDisable v)"
    using a(4) b(4) c(4) by (simp del: One_nat_def)
  moreover have "(\<forall>k. env k \<noteq> 0) \<longrightarrow> filter is_regulator_disable ?evs =
      [RegulatorDisable v, RegulatorDisable v, RegulatorDisable v]"
    using a(4) b(4) c(4) by simp
  ultimately show ?thesis by blast
qed

lemma device_prepare_total:
  "\<exists>evs. device_prepare env en s = Some (s\<lparr>prepared := en, trace := trace s @ evs\<rparr>)"
proof -
  consider (up) "en" "\<not> prepared s" | (down) "\<not> en" "prepared s"
    | (same) "en = prepared s" by blast
  then show ?thesis
  proof cases
    case same
    then have "device_prepare env en s =
        Some (s\<lparr>prepared := en, trace := trace s @ [MutexLock, MutexUnlock]\<rparr>)"
      by (cases en) (simp_all add: device_prepare_def emit_def)
    then show ?thesis by blast
  next
    case up
    let ?s2 = "s\<lparr>trace := trace s @ [MutexLock], prepared := True,
      trace := trace s @ [MutexLock, PinctrlSelectState (pinctrl_state s ! 0)]\<rparr>"
    obtain r2 e2 where a: "vreg_setup env VCC_SPI True ?s2 = Some (r2, ?s2\<lparr>trace := trace ?s2 @ e2\<rparr>)"
      using vreg_setup_total [of VCC_SPI env True ?s2] by (auto simp: rail_zero)
    let ?s3 = "?s2\<lparr>trace := trace ?s2 @ e2\<rparr>"
    obtain r3 e3 where b: "vreg_setup env VDD_IO True ?s3 = Some (r3, ?s3\<lparr>trace := trace ?s3 @ e3\<rparr>)"
      using vreg_setup_total [of VDD_IO env True ?s3] by (auto simp: rail_zero)
    let ?s4 = "?s3\<lparr>trace := trace ?s3 @ e3\<rparr>"
    obtain r4 e4 where c: "vreg_setup env VDD_ANA True ?s4 = Some (r4, ?s4\<lparr>trace := trace ?s4 @ e4\<rparr>)"
      using vreg_setup_total [of VDD_ANA env True ?s4] by (auto simp: rail_zero)
    have "device_prepare env en s = Some (s\<lparr>prepared := en, trace := trace s @
       (MutexLock # PinctrlSelectState (pinctrl_state s ! 0) # e2 @ e3 @ e4 @
     [UsleepRange PWR_ON_SLEEP_MIN_US PWR_ON_SLEEP_MAX_US,
      PinctrlSelectState (pinctrl_state s ! 1), MutexUnlock])\<rparr>)"
      using up a b c
      by (simp add: device_prepare_def select_pin_ctl_simps call_def emit_def Let_def)
    then show ?thesis by blast
  next
    case down
    let ?s2 = "s\<lparr>trace := trace s @ [MutexLock, PinctrlSelectState (pinctrl_state s ! 0),
      UsleepRange PWR_ON_SLEEP_MIN_US PWR_ON_SLEEP_MAX_US]\<rparr>"
    obtain r2 e2 where a: "vreg_setup env VDD_ANA False ?s2 = Some (r2, ?s2\<lparr>trace := trace ?s2 @ e2\<rparr>)"
      using vreg_setup_total [of VDD_ANA env False ?s2] by (auto simp: rail_zero)
    let ?s3 = "?s2\<lparr>trace := trace ?s2 @ e2\<rparr>"
    obtain r3 e3 where b: "vreg_setup env VDD_IO False ?s3 = Some (r3, ?s3\<lparr>trace := trace ?s3 @ e3\<rparr>)"
      using vreg_setup_total [of VDD_IO env False ?s3] by (auto simp: rail_zero)
    let ?s4 = "?s3\<lparr>trace := trace ?s3 @ e3\<rparr>"
    obtain r4 e4 where c: "vreg_setup env VCC_SPI False ?s4 = Some (r4, ?s4\<lparr>trace := trace ?s4 @ e4\<rparr>)"
      using vreg_setup_total [of VCC_SPI env False ?s4] by (auto simp: rail_zero)
    have "device_prepare env en s = Some (s\<lparr>prepared := en, trace := trace s @
       (MutexLock # PinctrlSelectState (pinctrl_state s ! 0) #
      UsleepRange PWR_ON_SLEEP_MIN_US PWR_ON_SLEEP_MAX_US # e2 @ e3 @ e4 @ [MutexUnlock])\<rparr>)"
      using down a b c
      by (simp add: device_prepare_def select_pin_ctl_simps call_def emit_def Let_def)
    then show ?thesis by blast
  qed
qed


lemma new_events_append [simp]: "new_events s (s\<lparr>prepared := b, trace := trace s @ evs\<rparr>) = evs"
  "new_events s (s\<lparr>trace := trace s @ evs\<rparr>) = evs"
  by (simp_all add: new_events_def)





lemma device_prepare_twice:
  "device_prepare env True s \<bind> device_prepare env True =
     map_option (\<lambda>s1. s1\<lparr>trace := trace s1 @ [MutexLock, MutexUnlock]\<rparr>)
       (device_prepare env True s)"
proof -
  obtain evs where "device_prepare env True s =
      Some (s\<lparr>prepared := True, trace := trace s @ evs\<rparr>)"
    using device_prepare_total [of env True s] by blast
  then show ?thesis
    by (simp add: device_prepare_noop)
qed

text \<open>
  C6. \<^verbatim>\<open>device_prepare\<close> with the value the \<open>prepared\<close> flag already has takes and
  releases the lock and does nothing else: no pin selection, no regulator call, no
  field changed. A second power-up right after a first one is such a call, so two
  consecutive power-ups run the enable sequence once. A power-up always leaves the flag
  set and a power-down always leaves it clear.
\<close>

theorem set_powered_idempotent:
  "(prepared s \<longrightarrow>
      device_prepare env True s = Some (s\<lparr>trace := trace s @ [MutexLock, MutexUnlock]\<rparr>))
   \<and> (\<not> prepared s \<longrightarrow>
      device_prepare env False s = Some (s\<lparr>trace := trace s @ [MutexLock, MutexUnlock]\<rparr>))
   \<and> device_prepare env True s \<bind> device_prepare env True =
       map_option (\<lambda>s1. s1\<lparr>trace := trace s1 @ [MutexLock, MutexUnlock]\<rparr>)
         (device_prepare env True s)
   \<and> (\<exists>s1. device_prepare env True s = Some s1 \<and> prepared s1)
   \<and> (\<exists>s1. device_prepare env False s = Some s1 \<and> \<not> prepared s1)"
proof -
  have c1: "prepared s \<longrightarrow>
      device_prepare env True s = Some (s\<lparr>trace := trace s @ [MutexLock, MutexUnlock]\<rparr>)"
    and c2: "\<not> prepared s \<longrightarrow>
      device_prepare env False s = Some (s\<lparr>trace := trace s @ [MutexLock, MutexUnlock]\<rparr>)"
    by (simp_all add: device_prepare_noop)
  obtain e1 where "device_prepare env True s =
      Some (s\<lparr>prepared := True, trace := trace s @ e1\<rparr>)"
    using device_prepare_total [of env True s] by blast
  then have c4: "\<exists>s1. device_prepare env True s = Some s1 \<and> prepared s1"
    by simp
  obtain e2 where "device_prepare env False s =
      Some (s\<lparr>prepared := False, trace := trace s @ e2\<rparr>)"
    using device_prepare_total [of env False s] by blast
  then have c5: "\<exists>s1. device_prepare env False s = Some s1 \<and> \<not> prepared s1"
    by simp
  show ?thesis
    using c1 c2 device_prepare_twice [of env s] c4 c5 by blast
qed

lemma example_state_fields:
  "\<not> prepared example_state" "trace example_state = []"
  "vreg example_state ! 0 = Some 20" "pinctrl_state example_state ! 0 = Some 10"
  "pinctrl_state example_state ! 1 = Some 11" "pinctrl_state example_state ! Suc 0 = Some 11"
  "irq_gpio example_state = 5"
  by (simp_all add: example_state_def)

lemma example_power_up:
  "device_prepare (\<lambda>k. 0) True example_state =
    Some (example_state\<lparr>prepared := True, trace :=
       [MutexLock, PinctrlSelectState (Some 10), RegulatorCountVoltages 20,
        RegulatorSetLoad 20 6000, RegulatorEnable 20,
        RegulatorCountVoltages 20, RegulatorSetLoad 20 6000,
        RegulatorEnable 20, RegulatorCountVoltages 20,
        RegulatorSetLoad 20 6000, RegulatorEnable 20, UsleepRange 100 1000,
        PinctrlSelectState (Some 11), MutexUnlock]\<rparr>)"
  by (simp add: device_prepare_def vreg_setup_def vreg_conf_def select_pin_ctl_simps
      call_def emit_def example_state_def rail_zero PWR_ON_SLEEP_MIN_US_def
      PWR_ON_SLEEP_MAX_US_def)

theorem set_powered_idempotent_witness:
  "prepared (example_state\<lparr>prepared := True\<rparr>)
   \<and> device_prepare (\<lambda>k. 0) True (example_state\<lparr>prepared := True\<rparr>) =
       Some (example_state\<lparr>prepared := True, trace := [MutexLock, MutexUnlock]\<rparr>)
   \<and> \<not> prepared example_state
   \<and> device_prepare (\<lambda>k. 0) False example_state =
       Some (example_state\<lparr>trace := [MutexLock, MutexUnlock]\<rparr>)
   \<and> map_option (rail_enables example_state)
        (device_prepare (\<lambda>k. 0) True example_state \<bind> device_prepare (\<lambda>k. 0) True) =
       Some [RegulatorEnable 20, RegulatorEnable 20, RegulatorEnable 20]"
  using set_powered_idempotent [of "example_state\<lparr>prepared := True\<rparr>" "\<lambda>k. 0"]
    set_powered_idempotent [of example_state "\<lambda>k. 0"]
  by (simp add: example_power_up example_state_fields rail_enables_def new_events_def)


section \<open>Failures of the hardware calls\<close>

lemma hw_reset_store_reset:
  "hw_reset_store env ''reset'' count s =
     (int count, s\<lparr>trace := trace s @
        [MutexLock, GpioGetValue (irq_gpio s),
         PinctrlSelectState (pinctrl_state s ! 1), UsleepRange 100 200,
         PinctrlSelectState (pinctrl_state s ! 0), UsleepRange 5000 5100,
         PinctrlSelectState (pinctrl_state s ! 1), UsleepRange 5000 5100,
         GpioGetValue (irq_gpio s), MutexUnlock]\<rparr>)"
  by (simp add: hw_reset_store_def hw_reset_trace emit_def)

lemma vreg_setup_disable_exact:
  assumes "vreg s ! 0 = Some v" and "unat r = 0"
  shows "\<exists>s'. vreg_setup env r False s = Some (0, s') \<and>
           (env (length (trace s)) = 0 \<longrightarrow> s' = emit (RegulatorIsEnabled v) s)"
  using assms by (simp add: vreg_setup_def vreg_conf_def call_def Let_def)

text \<open>
  C7. Whatever each kernel call answers, a power-up, a power-down and a reset written to
  their command nodes return the byte count, never an error, and their trace holds every
  pin selection and every rail step of the sequence: no failure of a step cuts the
  sequence short. Disabling a rail always returns 0, and when the regulator reports
  that it is not enabled the only call made is that query. The rail is the one a
  successful probe has stored at index 0.
\<close>

theorem hardware_failures_not_propagated:
  assumes "vreg s ! 0 = Some v"
  shows
  "(\<exists>s'. device_prepare_store env ''enable'' count s = Some (int count, s') \<and>
       (\<not> prepared s \<longrightarrow>
          selections s s' = [PinctrlSelectState (pinctrl_state s ! 0),
                             PinctrlSelectState (pinctrl_state s ! 1)] \<and>
          rail_enables s s' = [RegulatorEnable v, RegulatorEnable v, RegulatorEnable v]))
   \<and> (\<exists>s'. device_prepare_store env ''disable'' count s = Some (int count, s') \<and>
       (prepared s \<longrightarrow>
          selections s s' = [PinctrlSelectState (pinctrl_state s ! 0)] \<and>
          rail_queries s s' =
            [RegulatorIsEnabled v, RegulatorIsEnabled v, RegulatorIsEnabled v]))
   \<and> (\<exists>s'. hw_reset_store env ''reset'' count s = (int count, s') \<and>
          selections s s' = [PinctrlSelectState (pinctrl_state s ! 1),
                             PinctrlSelectState (pinctrl_state s ! 0),
                             PinctrlSelectState (pinctrl_state s ! 1)])
   \<and> (\<forall>r \<in> {VDD_ANA, VCC_SPI, VDD_IO}.
         \<exists>s'. vreg_setup env r False s = Some (0, s') \<and>
           (env (length (trace s)) = 0 \<longrightarrow> s' = emit (RegulatorIsEnabled v) s))"
proof -
  have up: "\<exists>s'. device_prepare_store env ''enable'' count s = Some (int count, s') \<and>
       (\<not> prepared s \<longrightarrow>
          selections s s' = [PinctrlSelectState (pinctrl_state s ! 0),
                             PinctrlSelectState (pinctrl_state s ! 1)] \<and>
          rail_enables s s' = [RegulatorEnable v, RegulatorEnable v, RegulatorEnable v])"
  proof (cases "prepared s")
    case True
    then show ?thesis
      by (simp add: device_prepare_store_def device_prepare_noop)
  next
    case False
    obtain evs where "device_prepare env True s = Some (s\<lparr>prepared := True, trace := trace s @ evs\<rparr>)"
      "filter is_regulator_enable evs = [RegulatorEnable v, RegulatorEnable v, RegulatorEnable v]"
      "filter is_select evs = [PinctrlSelectState (pinctrl_state s ! 0), PinctrlSelectState (pinctrl_state s ! 1)]"
      using device_prepare_up [OF assms False, of env] by blast
    then show ?thesis
      by (simp add: device_prepare_store_def selections_def rail_enables_def)
  qed
  have down: "\<exists>s'. device_prepare_store env ''disable'' count s = Some (int count, s') \<and>
       (prepared s \<longrightarrow>
          selections s s' = [PinctrlSelectState (pinctrl_state s ! 0)] \<and>
          rail_queries s s' =
            [RegulatorIsEnabled v, RegulatorIsEnabled v, RegulatorIsEnabled v])"
  proof (cases "prepared s")
    case False
    then show ?thesis
      by (simp add: device_prepare_store_def device_prepare_noop)
  next
    case True
    obtain evs where "device_prepare env False s = Some (s\<lparr>prepared := False, trace := trace s @ evs\<rparr>)"
      "filter is_regulator_query evs =
         [RegulatorIsEnabled v, RegulatorIsEnabled v, RegulatorIsEnabled v]"
      "filter is_select evs = [PinctrlSelectState (pinctrl_state s ! 0)]"
      using device_prepare_down [OF assms True, of env] by blast
    then show ?thesis
      by (simp add: device_prepare_store_def selections_def rail_queries_def)
  qed
  have reset: "\<exists>s'. hw_reset_store env ''reset'' count s = (int count, s') \<and>
          selections s s' = [PinctrlSelectState (pinctrl_state s ! 1),
                             PinctrlSelectState (pinctrl_state s ! 0),
                             PinctrlSelectState (pinctrl_state s ! 1)]"
    by (simp add: hw_reset_store_reset selections_def)
  have off: "\<forall>r \<in> {VDD_ANA, VCC_SPI, VDD_IO}.
         \<exists>s'. vreg_setup env r False s = Some (0, s') \<and>
           (env (length (trace s)) = 0 \<longrightarrow> s' = emit (RegulatorIsEnabled v) s)"
    using vreg_setup_disable_exact [OF assms, of _ env] by (auto simp: rail_zero)
  show ?thesis using up down reset off by blast
qed

theorem hardware_failures_not_propagated_witness:
  "vreg example_state ! 0 = Some 20
   \<and> (\<exists>s'. device_prepare_store (\<lambda>k. - 5) ''enable'' 7 example_state = Some (7, s') \<and>
          selections example_state s' =
            [PinctrlSelectState (Some 10), PinctrlSelectState (Some 11)] \<and>
          rail_enables example_state s' =
            [RegulatorEnable 20, RegulatorEnable 20, RegulatorEnable 20])
   \<and> (\<exists>s'. hw_reset_store (\<lambda>k. - 5) ''reset'' 7 example_state = (7, s') \<and>
          selections example_state s' =
            [PinctrlSelectState (Some 11), PinctrlSelectState (Some 10),
             PinctrlSelectState (Some 11)])
   \<and> (\<exists>s'. vreg_setup (\<lambda>k. 0) VDD_IO False example_state = Some (0, s') \<and>
          s' = emit (RegulatorIsEnabled 20) example_state)"
  using hardware_failures_not_propagated [of example_state 20 "\<lambda>k. - 5" 7]
    hardware_failures_not_propagated [of example_state 20 "\<lambda>k. 0" 7]
  by (simp add: example_state_fields)


section \<open>The interrupt handler\<close>

text \<open>
  C5 fails on the code. The handler never reads \<open>wakeup_enabled\<close>: with the flag at 0,
  as it is after \<^verbatim>\<open>disable\<close> is written to the wakeup node, an interrupt still arms the
  400 ms wake assertion. In every state the handler arms it and then notifies the
  interrupt attribute.
\<close>

theorem irq_handler_ignores_wake_flag:
  "wakeup_enabled (snd (wakeup_enable_store ''disable'' 7 example_state)) = 0
   \<and> filter is_wakeup_event
        (new_events (snd (wakeup_enable_store ''disable'' 7 example_state))
          (snd (fpc1020_irq_handler 0 (snd (wakeup_enable_store ''disable'' 7 example_state))))) =
       [PmWakeupEvent 400]
   \<and> fpc1020_irq_handler irq s =
       (IRQ_HANDLED, s\<lparr>trace := trace s @ [PmWakeupEvent 400, SysfsNotify ''irq'']\<rparr>)"
  by (simp add: wakeup_enable_store_def fpc1020_irq_handler_def emit_def new_events_def
      FPC_TTW_HOLD_TIME_def)

section \<open>Malformed commands\<close>

lemma name_to_fpc_rail_unknown:
  "nm \<noteq> ''vdd_ana'' \<Longrightarrow> nm \<noteq> ''vcc_spi'' \<Longrightarrow> nm \<noteq> ''vdd_io'' \<Longrightarrow>
     unat (name_to_fpc_rail nm) = 4294967274"
  by (simp add: name_to_fpc_rail_def EINVAL_def)

lemma vreg_setup_unknown:
  "nm \<noteq> ''vdd_ana'' \<Longrightarrow> nm \<noteq> ''vcc_spi'' \<Longrightarrow> nm \<noteq> ''vdd_io'' \<Longrightarrow>
     vreg_setup env (name_to_fpc_rail nm) en s = None"
  by (simp add: vreg_setup_def name_to_fpc_rail_unknown vreg_conf_def)

lemma sscanf_foo: "sscanf_name_op ''foo,e'' = (2, ''foo'', CHR ''e'')"
  by (simp add: sscanf_name_op_def)

lemma regulator_enable_store_foo: "regulator_enable_store env ''foo,e'' count s = None"
  by (simp add: regulator_enable_store_def sscanf_foo NUM_PARAMS_REG_ENABLE_SET_def
      vreg_setup_unknown)

text \<open>
  C9 fails on the code. For a name that is none of the three rail names,
  \<^verbatim>\<open>name_to_fpc_rail\<close> returns \<^verbatim>\<open>-EINVAL\<close> converted to the enumeration type, and
  \<^verbatim>\<open>vreg_setup\<close> uses it as an index into the three-element regulator array without a
  check: the well-formed write \<^verbatim>\<open>foo,e\<close> reads outside the array.
\<close>

theorem rail_index_out_of_bounds:
  "(nm \<notin> {''vdd_ana'', ''vcc_spi'', ''vdd_io''} \<longrightarrow>
      unat (name_to_fpc_rail nm) = 4294967274 \<and> sint (name_to_fpc_rail nm) = - EINVAL \<and>
      \<not> unat (name_to_fpc_rail nm) < length vreg_conf \<and>
      vreg_setup env (name_to_fpc_rail nm) en s = None)
   \<and> length vreg_conf = 3
   \<and> sscanf_name_op ''foo,e'' = (2, ''foo'', CHR ''e'')
   \<and> regulator_enable_store env ''foo,e'' count s = None"
  by (simp add: name_to_fpc_rail_unknown vreg_setup_unknown sscanf_foo
      regulator_enable_store_foo)
     (simp add: vreg_conf_def name_to_fpc_rail_def EINVAL_def)

theorem rail_index_out_of_bounds_witness:
  "''foo'' \<notin> {''vdd_ana'', ''vcc_spi'', ''vdd_io''}
   \<and> unat (name_to_fpc_rail ''foo'') = 4294967274
   \<and> vreg_setup (\<lambda>k. 0) (name_to_fpc_rail ''foo'') True example_state = None
   \<and> regulator_enable_store (\<lambda>k. 0) ''foo,e'' 5 example_state = None"
  using rail_index_out_of_bounds [of "''foo''" "\<lambda>k. 0" True example_state 5]
  by simp

text \<open>
  C8 fails on the code for one kind of input. An unrecognized word written to the
  prepare, fingerdown-wait, wakeup or reset node, a proximity value that does not
  parse, and a regulator command that does not scan or whose operation is neither
  \<open>e\<close> nor \<open>d\<close> are rejected with \<^verbatim>\<open>-EINVAL\<close> and no field changed (the wakeup node
  takes and releases the lock). A regulator command with an unrecognized rail name is
  not rejected: it reaches \<^verbatim>\<open>vreg_setup\<close> with an index outside the array.
\<close>

theorem malformed_commands:
  "(buf \<noteq> ''enable'' \<and> buf \<noteq> ''disable'' \<longrightarrow>
      device_prepare_store env buf count s = Some (- EINVAL, s) \<and>
      fingerdown_wait_store buf count s = (- EINVAL, s) \<and>
      wakeup_enable_store buf count s =
        (- EINVAL, s\<lparr>trace := trace s @ [MutexLock, MutexUnlock]\<rparr>))
   \<and> (buf \<noteq> ''reset'' \<longrightarrow> hw_reset_store env buf count s = (- EINVAL, s))
   \<and> (fst (kstrtoint buf) \<noteq> 0 \<longrightarrow> proximity_state_store buf count s = (- EINVAL, s))
   \<and> (fst (sscanf_name_op buf) \<noteq> 2 \<longrightarrow>
        regulator_enable_store env buf count s = Some (- EINVAL, s))
   \<and> (snd (snd (sscanf_name_op buf)) \<noteq> CHR ''e'' \<and> snd (snd (sscanf_name_op buf)) \<noteq> CHR ''d'' \<longrightarrow>
        regulator_enable_store env buf count s = Some (- EINVAL, s))
   \<and> (fst (sscanf_name_op buf) = 2 \<and>
       (snd (snd (sscanf_name_op buf)) = CHR ''e'' \<or> snd (snd (sscanf_name_op buf)) = CHR ''d'') \<and>
       fst (snd (sscanf_name_op buf)) \<notin> {''vdd_ana'', ''vcc_spi'', ''vdd_io''} \<longrightarrow>
        regulator_enable_store env buf count s = None)"
  by (auto simp add: device_prepare_store_def fingerdown_wait_store_def wakeup_enable_store_def
      hw_reset_store_def proximity_state_store_def regulator_enable_store_def emit_def
      NUM_PARAMS_REG_ENABLE_SET_def vreg_setup_unknown split: prod.splits)


lemma kstrtoint_examples:
  "kstrtoint ''bogus'' = (- EINVAL, 0)"
  "kstrtoint ''1'' = (0, 1)"
  "kstrtoint ''0'' = (0, 0)"
  by (simp_all add: kstrtoint_def kstrtoull_def is_digit_def parse_integer_def EINVAL_def)

lemma sscanf_bogus: "sscanf_name_op ''bogus'' = (1, ''bogus'', CHR 0x00)"
  by (simp add: sscanf_name_op_def)

theorem malformed_commands_witness:
  "device_prepare_store (\<lambda>k. 0) ''bogus'' 5 example_state = Some (- EINVAL, example_state)
   \<and> fingerdown_wait_store ''bogus'' 5 example_state = (- EINVAL, example_state)
   \<and> hw_reset_store (\<lambda>k. 0) ''bogus'' 5 example_state = (- EINVAL, example_state)
   \<and> proximity_state_store ''bogus'' 5 example_state = (- EINVAL, example_state)
   \<and> regulator_enable_store (\<lambda>k. 0) ''bogus'' 5 example_state = Some (- EINVAL, example_state)
   \<and> regulator_enable_store (\<lambda>k. 0) ''foo,e'' 5 example_state = None"
  using malformed_commands [of "''bogus''" "\<lambda>k. 0" 5 example_state]
    malformed_commands [of "''foo,e''" "\<lambda>k. 0" 5 example_state]
  by (simp add: kstrtoint_examples sscanf_bogus sscanf_foo EINVAL_def)


section \<open>Display and proximity policy\<close>

lemma proximity_state_store_ok:
  "fst (kstrtoint buf) = 0 \<Longrightarrow>
     proximity_state_store buf count s =
       (int count,
        if fb_black s
        then config_irq (spec_fusion_target True (snd (kstrtoint buf) \<noteq> 0))
               (s\<lparr>proximity_state := (snd (kstrtoint buf) \<noteq> 0)\<rparr>)
        else s\<lparr>proximity_state := (snd (kstrtoint buf) \<noteq> 0)\<rparr>)"
  by (cases "kstrtoint buf") (simp add: proximity_state_store_def spec_fusion_target_def)

lemma fb_powerdown:
  "fpc_fb_notif_callback FB_EVENT_BLANK (Some (Some FB_BLANK_POWERDOWN)) s =
     (NOTIFY_OK,
      if proximity_state s
      then config_irq (spec_fusion_target True True) (s\<lparr>fb_black := True\<rparr>)
      else s\<lparr>fb_black := True\<rparr>)"
  by (simp add: fpc_fb_notif_callback_def spec_fusion_target_def)

lemma fb_unblank:
  "blank = FB_BLANK_UNBLANK \<or> blank = FB_BLANK_NORMAL \<Longrightarrow>
   fpc_fb_notif_callback FB_EVENT_BLANK (Some (Some blank)) s =
     (NOTIFY_OK,
      config_irq (spec_fusion_target False (proximity_state s)) (s\<lparr>fb_black := False\<rparr>))"
  by (auto simp add: fpc_fb_notif_callback_def spec_fusion_target_def
      FB_BLANK_UNBLANK_def FB_BLANK_NORMAL_def FB_BLANK_POWERDOWN_def)

text \<open>
  C4, as the code has it. A proximity write calls \<^verbatim>\<open>config_irq\<close>, with the target of
  the fusion table, only while the display is blanked, and otherwise stores the value
  and calls nothing; a power-down notification calls it, with the target of the table,
  only while the sensor is covered, and otherwise sets the flag and calls nothing; an
  unblank notification always calls it, with the target of the table.
\<close>

theorem irq_policy_fusion:
  "(fst (kstrtoint buf) = 0 \<longrightarrow>
      proximity_state_store buf count s =
        (int count,
         if fb_black s
         then config_irq (spec_fusion_target True (snd (kstrtoint buf) \<noteq> 0))
                (s\<lparr>proximity_state := (snd (kstrtoint buf) \<noteq> 0)\<rparr>)
         else s\<lparr>proximity_state := (snd (kstrtoint buf) \<noteq> 0)\<rparr>))
   \<and> fpc_fb_notif_callback FB_EVENT_BLANK (Some (Some FB_BLANK_POWERDOWN)) s =
       (NOTIFY_OK,
        if proximity_state s
        then config_irq (spec_fusion_target True True) (s\<lparr>fb_black := True\<rparr>)
        else s\<lparr>fb_black := True\<rparr>)
   \<and> (blank = FB_BLANK_UNBLANK \<or> blank = FB_BLANK_NORMAL \<longrightarrow>
       fpc_fb_notif_callback FB_EVENT_BLANK (Some (Some blank)) s =
         (NOTIFY_OK,
          config_irq (spec_fusion_target False (proximity_state s)) (s\<lparr>fb_black := False\<rparr>)))"
  using proximity_state_store_ok [of buf count s] fb_powerdown [of s] fb_unblank [of blank s]
  by blast

lemma example_not_blanked: "\<not> fb_black example_state" "\<not> proximity_state example_state"
  by (simp_all add: example_state_def)

theorem irq_policy_fusion_witness:
  "fst (kstrtoint ''1'') = 0
   \<and> proximity_state_store ''1'' 4 example_state =
       (4, example_state\<lparr>proximity_state := True\<rparr>)
   \<and> proximity_state_store ''1'' 4 (example_state\<lparr>fb_black := True\<rparr>) =
       (4, config_irq False (example_state\<lparr>fb_black := True, proximity_state := True\<rparr>))
   \<and> irq_calls (snd (proximity_state_store ''1'' 4 (example_state\<lparr>fb_black := True\<rparr>))) =
       [DisableIrq 5]
   \<and> fpc_fb_notif_callback FB_EVENT_BLANK (Some (Some FB_BLANK_POWERDOWN))
        (example_state\<lparr>proximity_state := True\<rparr>) =
       (NOTIFY_OK, config_irq False (example_state\<lparr>proximity_state := True, fb_black := True\<rparr>))
   \<and> fpc_fb_notif_callback FB_EVENT_BLANK (Some (Some FB_BLANK_POWERDOWN)) example_state =
       (NOTIFY_OK, example_state\<lparr>fb_black := True\<rparr>)
   \<and> fpc_fb_notif_callback FB_EVENT_BLANK (Some (Some FB_BLANK_NORMAL)) example_state =
       (NOTIFY_OK, config_irq True (example_state\<lparr>fb_black := False\<rparr>))"
  using irq_policy_fusion [of "''1''" 4 example_state FB_BLANK_NORMAL]
    irq_policy_fusion [of "''1''" 4 "example_state\<lparr>fb_black := True\<rparr>" FB_BLANK_NORMAL]
    irq_policy_fusion [of "''1''" 4 "example_state\<lparr>proximity_state := True\<rparr>" FB_BLANK_NORMAL]
  by (simp add: kstrtoint_examples example_not_blanked spec_fusion_target_def)
     (simp add: config_irq_def emit_def irq_calls_def example_state_def)

text \<open>
  C4 as stated fails: a proximity write while the display is not blanked makes no
  kernel call at all, where a call of \<^verbatim>\<open>config_irq\<close> takes and releases the lock.
\<close>

theorem irq_policy_not_invoked_counterexample:
  "proximity_state_store ''1'' 4 example_state = (4, example_state\<lparr>proximity_state := True\<rparr>)
   \<and> new_events example_state (snd (proximity_state_store ''1'' 4 example_state)) = []
   \<and> new_events example_state
        (config_irq (spec_fusion_target (fb_black example_state) True)
           (example_state\<lparr>proximity_state := True\<rparr>)) = [MutexLock, MutexUnlock]
   \<and> snd (proximity_state_store ''1'' 4 example_state) \<noteq>
       config_irq (spec_fusion_target (fb_black example_state) True)
         (example_state\<lparr>proximity_state := True\<rparr>)"
  by (simp add: proximity_state_store_ok kstrtoint_examples example_not_blanked
      spec_fusion_target_def new_events_def config_irq_def emit_def example_state_def)

section \<open>Properties of attach\<close>

lemma lookup_pin_states_missing:
  "n \<in> set ns \<Longrightarrow> lk n = None \<Longrightarrow>
     fst (lookup_pin_states lk i ns s) = - EINVAL \<and>
     trace (snd (lookup_pin_states lk i ns s)) = trace s"
  by (induction ns arbitrary: i s) (auto split: option.splits)

lemma get_regulators_result:
  "fst (fpc1020_get_regulators p s) \<in> {0, - EINVAL} \<and>
   trace (snd (fpc1020_get_regulators p s)) = trace s"
  by (simp add: fpc1020_get_regulators_def FPC_VREG_MAX_def VDD_IO_def split: option.splits)

lemma probe_missing_pin_state:
  assumes "pinctrl_get p = PinctrlOk lk" and "n \<in> set pctl_names" and "lk n = None"
  shows "\<exists>rc s'. fpc1020_probe env p st = Some (rc, s') \<and> trace s' = [] \<and>
           rc = (if \<not> kzalloc_ok p then - ENOMEM
                 else if fpsensor p \<noteq> None \<and> fpsensor p \<noteq> Some 1 then - 1
                 else - EINVAL)"
proof -
  have tr: "trace (kzalloc_data st) = []" by (simp add: kzalloc_data_def)
  obtain rc1 s1 where r: "fpc1020_get_regulators p (kzalloc_data st) = (rc1, s1)"
    by (cases "fpc1020_get_regulators p (kzalloc_data st)")
  then have r1: "rc1 = 0 \<or> rc1 = - EINVAL" "trace s1 = []"
    using get_regulators_result [of p "kzalloc_data st"] tr by auto
  obtain rc2 g2 where g: "fpc1020_request_named_gpio p ''fpc,gpio_irq'' (irq_gpio s1) = (rc2, g2)"
    by (cases "fpc1020_request_named_gpio p ''fpc,gpio_irq'' (irq_gpio s1)")
  obtain rc3 g3 where h: "fpc1020_request_named_gpio p ''fpc,gpio_rst''
      (rst_gpio (s1\<lparr>irq_gpio := g2\<rparr>)) = (rc3, g3)"
    by (cases "fpc1020_request_named_gpio p ''fpc,gpio_rst'' (rst_gpio (s1\<lparr>irq_gpio := g2\<rparr>))")
  obtain rc4 s4 where l: "lookup_pin_states lk 0 pctl_names (s1\<lparr>irq_gpio := g2, rst_gpio := g3\<rparr>) = (rc4, s4)"
    by (cases "lookup_pin_states lk 0 pctl_names (s1\<lparr>irq_gpio := g2, rst_gpio := g3\<rparr>)")
  then have l1: "rc4 = - EINVAL" "trace s4 = []"
    using lookup_pin_states_missing [of n pctl_names lk 0 "s1\<lparr>irq_gpio := g2, rst_gpio := g3\<rparr>"]
      assms(2,3) r1
    by auto
  show ?thesis
    using assms(1) r r1 g h l l1 tr
    by (auto simp add: fpc1020_probe_def EINVAL_def Let_def)
qed


text \<open>
  C10. When the pin controller is obtained and any one of the three names of
  \<^verbatim>\<open>pctl_names\<close> has no state in it, the probe returns a negative error code,
  \<^verbatim>\<open>-EINVAL\<close> unless the allocation or the \<^verbatim>\<open>fpsensor\<close> test has already failed, and has
  made none of the kernel calls that follow the lookup: no pin selection, no interrupt
  request, no registration.
\<close>

theorem probe_fails_on_missing_pin_state:
  assumes "pinctrl_get p = PinctrlOk lk" and "n \<in> set pctl_names" and "lk n = None"
  shows "\<exists>rc s'. fpc1020_probe env p st = Some (rc, s') \<and> rc < 0 \<and> trace s' = [] \<and>
           rc = (if \<not> kzalloc_ok p then - ENOMEM
                 else if fpsensor p \<noteq> None \<and> fpsensor p \<noteq> Some 1 then - 1
                 else - EINVAL)"
  using probe_missing_pin_state [OF assms, of env st]
  by (auto simp add: ENOMEM_def EINVAL_def)

theorem probe_fails_on_missing_pin_state_witness:
  "pinctrl_get (example_platform\<lparr>pinctrl_get := PinctrlOk (map_of
       [(''fpc1020_reset_reset'', 10), (''fpc1020_reset_active'', 11)])\<rparr>) =
     PinctrlOk (map_of [(''fpc1020_reset_reset'', 10), (''fpc1020_reset_active'', 11)])
   \<and> ''fpc1020_irq_active'' \<in> set pctl_names
   \<and> map_of [(''fpc1020_reset_reset'', 10), (''fpc1020_reset_active'', 11 :: nat)]
        ''fpc1020_irq_active'' = None
   \<and> (\<exists>s'. fpc1020_probe (\<lambda>k. 0)
          (example_platform\<lparr>pinctrl_get := PinctrlOk (map_of
             [(''fpc1020_reset_reset'', 10), (''fpc1020_reset_active'', 11)])\<rparr>)
          irq_enabled_init =
        Some (- EINVAL, s') \<and> trace s' = [])"
  using probe_fails_on_missing_pin_state [of
      "example_platform\<lparr>pinctrl_get := PinctrlOk (map_of
         [(''fpc1020_reset_reset'', 10), (''fpc1020_reset_active'', 11)])\<rparr>"
      "map_of [(''fpc1020_reset_reset'', 10), (''fpc1020_reset_active'', 11)]"
      "''fpc1020_irq_active''" "\<lambda>k. 0" irq_enabled_init]
  by (auto simp add: pctl_names_def example_platform_def)



text \<open>
  A successful probe has stored a regulator at index 0, the index of all three rail
  enumerators.
\<close>

lemma lookup_pin_states_vreg:
  "lookup_pin_states lk i ns s = (rc, s') \<Longrightarrow> vreg s' = vreg s"
  by (induction ns arbitrary: i s) (auto split: option.splits)

lemma get_regulators_vreg:
  "fpc1020_get_regulators p (kzalloc_data st) = (0, s1) \<Longrightarrow> \<exists>v. vreg s1 ! 0 = Some v"
  by (auto simp add: fpc1020_get_regulators_def FPC_VREG_MAX_def VDD_IO_def kzalloc_data_def
      EINVAL_def split: option.splits)

lemma device_prepare_vreg:
  "device_prepare env en s = Some s' \<Longrightarrow> vreg s' = vreg s"
  using device_prepare_total [of env en s] by auto

lemma probe_finish_vreg:
  "probe_finish env p s = Some (rc, s') \<Longrightarrow> vreg s' = vreg s"
  by (auto simp add: probe_finish_def select_pin_ctl_simps call_def emit_def hw_reset_trace
      Let_def split: if_splits option.splits prod.splits dest: device_prepare_vreg)

lemma probe_success_vreg:
  assumes "fpc1020_probe env p st = Some (0, s)"
  shows "\<exists>v. vreg s ! 0 = Some v"
proof -
  obtain rc1 s1 where r: "fpc1020_get_regulators p (kzalloc_data st) = (rc1, s1)"
    by (cases "fpc1020_get_regulators p (kzalloc_data st)")
  obtain rc2 g2 where g: "fpc1020_request_named_gpio p ''fpc,gpio_irq'' (irq_gpio s1) = (rc2, g2)"
    by (cases "fpc1020_request_named_gpio p ''fpc,gpio_irq'' (irq_gpio s1)")
  obtain rc3 g3 where h: "fpc1020_request_named_gpio p ''fpc,gpio_rst''
      (rst_gpio (s1\<lparr>irq_gpio := g2\<rparr>)) = (rc3, g3)"
    by (cases "fpc1020_request_named_gpio p ''fpc,gpio_rst'' (rst_gpio (s1\<lparr>irq_gpio := g2\<rparr>))")
  show ?thesis
    using assms r g h get_regulators_vreg [of p st s1]
    by (auto simp add: fpc1020_probe_def ENOMEM_def EINVAL_def EPROBE_DEFER_def Let_def
        split: if_splits pinctrl.splits prod.splits
        dest!: probe_finish_vreg lookup_pin_states_vreg)
qed


section \<open>The interrupt gate across attach\<close>










end
